theory Spec2Isabelle
  imports Main "HOL-Library.Word"
begin

section \<open>JavaScript strings\<close>

text \<open>
  A JavaScript string is a finite sequence of UTF-16 code units. String literals of
  \<^verbatim>\<open>index.js\<close> are ASCII; \<open>js\<close> turns such a literal into its code units.
\<close>

type_synonym jsstring = "16 word list"

definition js :: "string \<Rightarrow> jsstring" where
  "js s = map of_char s"

text \<open>
  \<^verbatim>\<open>String.prototype.trim\<close> removes leading and trailing WhiteSpace and
  LineTerminator code points (ECMA-262): TAB, LF, VT, FF, CR, SPACE, NBSP, U+1680,
  U+2000 to U+200A, U+2028, U+2029, U+202F, U+205F, U+3000 and U+FEFF.
\<close>

definition isWhiteSpace :: "16 word \<Rightarrow> bool" where
  "isWhiteSpace c \<longleftrightarrow>
     (0x9 \<le> c \<and> c \<le> 0xD) \<or> c = 0x20 \<or> c = 0xA0 \<or> c = 0x1680 \<or>
     (0x2000 \<le> c \<and> c \<le> 0x200A) \<or> c = 0x2028 \<or> c = 0x2029 \<or> c = 0x202F \<or>
     c = 0x205F \<or> c = 0x3000 \<or> c = 0xFEFF"

definition trim :: "jsstring \<Rightarrow> jsstring" where
  "trim s = rev (dropWhile isWhiteSpace (rev (dropWhile isWhiteSpace s)))"

text \<open>
  \<^verbatim>\<open>s.split(sep)\<close> for a separator of one code unit: the pieces between the
  occurrences of the separator, in order; \<^verbatim>\<open>"".split(";")\<close> is \<^verbatim>\<open>[""]\<close>.
\<close>

fun split_js :: "16 word \<Rightarrow> jsstring \<Rightarrow> jsstring list" where
  "split_js sep [] = [[]]"
| "split_js sep (c # cs) =
     (if c = sep then [] # split_js sep cs
      else (case split_js sep cs of [] \<Rightarrow> [[c]] | p # ps \<Rightarrow> (c # p) # ps))"

text \<open>\<^verbatim>\<open>parts.join(sep)\<close>.\<close>

fun join :: "jsstring \<Rightarrow> jsstring list \<Rightarrow> jsstring" where
  "join sep [] = []"
| "join sep [p] = p"
| "join sep (p # ps) = p @ sep @ join sep ps"

text \<open>
  \<^verbatim>\<open>String.prototype.toUpperCase\<close>. On a string of ASCII code units it maps
  \<^verbatim>\<open>a\<close>..\<^verbatim>\<open>z\<close> to \<^verbatim>\<open>A\<close>..\<^verbatim>\<open>Z\<close> and keeps every other code unit. On
  any other string the result comes from the Unicode case-mapping tables of the
  JavaScript engine, which are no part of this repository: they are the parameter
  \<open>unicodeUpper\<close>.
\<close>

definition upperAscii :: "16 word \<Rightarrow> 16 word" where
  "upperAscii c = (if 0x61 \<le> c \<and> c \<le> 0x7A then c - 0x20 else c)"

definition toUpperCase :: "(jsstring \<Rightarrow> jsstring) \<Rightarrow> jsstring \<Rightarrow> jsstring" where
  "toUpperCase unicodeUpper s =
     (if list_all (\<lambda>c. c < 0x80) s then map upperAscii s else unicodeUpper s)"

text \<open>A number in a template literal: the decimal digits of a non-negative integer.\<close>

fun decimal :: "nat \<Rightarrow> jsstring" where
  "decimal n = (if n < 10 then [of_nat (48 + n)] else decimal (n div 10) @ [of_nat (48 + n mod 10)])"

declare decimal.simps [simp del]

section \<open>Errors\<close>

text \<open>
  What a \<^verbatim>\<open>throw\<close> or a rejected promise carries: an \<^verbatim>\<open>Error\<close> made by
  \<^verbatim>\<open>index.js\<close> with its message, the \<^verbatim>\<open>TypeError\<close> of
  \<^verbatim>\<open>Readable.fromWeb\<close> on a response without body, or whatever a collaborator
  (fetch, parser, query engine, writer) rejects with.
\<close>

datatype 'x failure = Error jsstring | InvalidArgType | Rejected 'x

section \<open>Configuration from the environment\<close>

definition mustEnv :: "(jsstring \<Rightarrow> jsstring option) \<Rightarrow> jsstring \<Rightarrow> 'x failure + jsstring" where
  "mustEnv env name =
     (case env name of
        None \<Rightarrow> Inl (Error (js ''Missing env var: '' @ name))
      | Some v \<Rightarrow>
          if v = [] \<or> trim v = [] then Inl (Error (js ''Missing env var: '' @ name))
          else Inr v)"

section \<open>Collaborators and effects\<close>

text \<open>
  The URL and the options object given to \<^verbatim>\<open>fetch\<close>; \<open>reqMethod\<close> is the key
  \<^verbatim>\<open>method\<close> of the options. The first call of \<^verbatim>\<open>index.js\<close> gives no
  \<^verbatim>\<open>method\<close> and no \<^verbatim>\<open>body\<close>; \<^verbatim>\<open>fetch\<close> then sends a GET.
\<close>

record request =
  url :: jsstring
  reqMethod :: "jsstring option"
  headers :: "(jsstring \<times> jsstring) list"
  body :: "jsstring option"

definition httpMethod :: "request \<Rightarrow> jsstring" where
  "httpMethod r = (case reqMethod r of None \<Rightarrow> js ''GET'' | Some m \<Rightarrow> m)"

text \<open>
  What \<^verbatim>\<open>index.js\<close> reads of a \<^verbatim>\<open>Response\<close>: \<^verbatim>\<open>status\<close>,
  \<^verbatim>\<open>statusText\<close>, \<^verbatim>\<open>headers.get(name)\<close>, \<^verbatim>\<open>body\<close> (null on a response
  without body) and the outcome of \<^verbatim>\<open>text()\<close>. \<^verbatim>\<open>ok\<close> is the getter of the Fetch
  standard: the status lies in 200..299.
\<close>

record ('b, 'x) response =
  status :: nat
  statusText :: jsstring
  header :: "jsstring \<Rightarrow> jsstring option"
  stream :: "'b option"
  bodyText :: "'x + jsstring"

definition ok :: "('b, 'x) response \<Rightarrow> bool" where
  "ok res \<longleftrightarrow> 200 \<le> status res \<and> status res \<le> 299"

text \<open>
  An object stream as \<^verbatim>\<open>streamToArray\<close> sees it: the items of its \<^verbatim>\<open>data\<close>
  events, then either \<^verbatim>\<open>end\<close> or an \<^verbatim>\<open>error\<close> event.
\<close>

datatype ('a, 'x) objstream = Ends "'a list" | Fails "'a list" 'x

fun streamToArray :: "('a, 'x) objstream \<Rightarrow> 'x + 'a list" where
  "streamToArray (Ends items) = Inr items"
| "streamToArray (Fails items e) = Inl e"

text \<open>
  \<^verbatim>\<open>new Store(quads)\<close> of N3: a set of quads; \<^verbatim>\<open>size\<close> counts each quad once.
\<close>

datatype 'q store = Store "'q list"

fun store_size :: "'q store \<Rightarrow> nat" where
  "store_size (Store quads) = length (remdups quads)"

text \<open>
  Everything \<^verbatim>\<open>index.js\<close> takes from outside: the process environment, the engine's
  case mapping, \<^verbatim>\<open>fetch\<close>, \<^verbatim>\<open>rdfParser.parse\<close>,
  \<^verbatim>\<open>QueryEngine.queryQuads\<close> and the N3 \<^verbatim>\<open>Writer\<close>. A call that throws or a
  promise that rejects is \<open>Inl\<close>. Every awaited promise is taken to settle, and the
  constructors \<^verbatim>\<open>new Store\<close>, \<^verbatim>\<open>new QueryEngine\<close> and \<^verbatim>\<open>new Writer\<close> not to throw.
\<close>

record ('q, 'b, 'x) world =
  env :: "jsstring \<Rightarrow> jsstring option"
  unicodeUpper :: "jsstring \<Rightarrow> jsstring"
  fetch :: "request \<Rightarrow> 'x + ('b, 'x) response"
  parse :: "'b \<Rightarrow> jsstring \<Rightarrow> jsstring \<Rightarrow> 'x + ('q, 'x) objstream"
  queryQuads :: "jsstring \<Rightarrow> 'q store \<Rightarrow> 'x + ('q, 'x) objstream"
  writer :: "'q list \<Rightarrow> 'x + jsstring"

text \<open>
  The effects of a run, in order: a line on standard error, a call of \<^verbatim>\<open>fetch\<close>,
  of the parser (stream, content type, base IRI), of the query engine (query, source),
  of the writer, and of \<^verbatim>\<open>text()\<close> on the store's response.
\<close>

datatype ('q, 'b) event =
    Stderr jsstring
  | Fetch request
  | Parse 'b jsstring jsstring
  | QueryQuads jsstring "'q store"
  | Write "'q list"
  | Text

text \<open>
  An asynchronous computation is its outcome (\<open>Inl\<close>: it threw) and the effects it had.
  \<open>andThen\<close> runs the rest only after a normal outcome.
\<close>

type_synonym ('a, 'q, 'b, 'x) io = "('x failure + 'a) \<times> ('q, 'b) event list"

definition pure :: "'a \<Rightarrow> ('a, 'q, 'b, 'x) io" where
  "pure a = (Inr a, [])"

definition throw :: "'x failure \<Rightarrow> ('a, 'q, 'b, 'x) io" where
  "throw e = (Inl e, [])"

definition settle :: "'x + 'a \<Rightarrow> ('a, 'q, 'b, 'x) io" where
  "settle r = (case r of Inl x \<Rightarrow> (Inl (Rejected x), []) | Inr a \<Rightarrow> (Inr a, []))"

definition call :: "('q, 'b) event \<Rightarrow> 'x + 'a \<Rightarrow> ('a, 'q, 'b, 'x) io" where
  "call ev r = (case r of Inl x \<Rightarrow> (Inl (Rejected x), [ev]) | Inr a \<Rightarrow> (Inr a, [ev]))"

definition console_error :: "jsstring \<Rightarrow> (unit, 'q, 'b, 'x) io" where
  "console_error line = (Inr (), [Stderr line])"

definition andThen :: "('a, 'q, 'b, 'x) io \<Rightarrow> ('a \<Rightarrow> ('c, 'q, 'b, 'x) io) \<Rightarrow> ('c, 'q, 'b, 'x) io" where
  "andThen m f =
     (case m of
        (Inl e, t) \<Rightarrow> (Inl e, t)
      | (Inr a, t) \<Rightarrow> (case f a of (r, t') \<Rightarrow> (r, t @ t')))"

section \<open>The pipeline\<close>

subsection \<open>fetchRdfToStore\<close>

definition sourceRequest :: "jsstring \<Rightarrow> request" where
  "sourceRequest u =
     \<lparr>url = u, reqMethod = None,
      headers = [(js ''accept'',
        join (js '', '')
          [js ''text/turtle'',
           js ''application/n-triples'',
           js ''application/ld+json'',
           js ''application/rdf+xml'',
           js ''application/trig'',
           js ''application/n-quads'',
           js ''application/octet-stream;q=0.1'',
           js ''*/*;q=0.01''])],
      body = None\<rparr>"

text \<open>\<^verbatim>\<open>Readable.fromWeb\<close> throws a \<^verbatim>\<open>TypeError\<close> when given null.\<close>

definition fromWeb :: "'b option \<Rightarrow> ('b, 'q, 'b, 'x) io" where
  "fromWeb b = (case b of None \<Rightarrow> throw InvalidArgType | Some s \<Rightarrow> pure s)"

text \<open>
  \<^verbatim>\<open>res.headers.get("content-type")?.split(";")[0]?.trim() || "text/turtle"\<close>:
  a missing header, a missing first piece and an empty string all give the default.
\<close>

definition contentTypeOf :: "jsstring option \<Rightarrow> jsstring" where
  "contentTypeOf h =
     (case h of
        None \<Rightarrow> js ''text/turtle''
      | Some v \<Rightarrow>
          (case split_js 0x3B v of
             [] \<Rightarrow> js ''text/turtle''
           | p # _ \<Rightarrow> if trim p = [] then js ''text/turtle'' else trim p))"

definition fetchRdfToStore :: "('q, 'b, 'x) world \<Rightarrow> jsstring \<Rightarrow> ('q store, 'q, 'b, 'x) io" where
  "fetchRdfToStore w u =
     andThen (call (Fetch (sourceRequest u)) (fetch w (sourceRequest u))) (\<lambda>res.
       if \<not> ok res then
         throw (Error (js ''Failed to fetch RDF: '' @ decimal (status res) @ js '' '' @
                       statusText res @ js '' ('' @ u @ js '')''))
       else
         andThen (fromWeb (stream res)) (\<lambda>nodeStream.
         let contentType = contentTypeOf (header res (js ''content-type'')) in
         andThen (call (Parse nodeStream contentType u) (parse w nodeStream contentType u))
           (\<lambda>quadStream.
         andThen (settle (streamToArray quadStream)) (\<lambda>quads.
         pure (Store quads)))))"

subsection \<open>quadsToTurtle\<close>

definition quadsToTurtle :: "('q, 'b, 'x) world \<Rightarrow> 'q list \<Rightarrow> (jsstring, 'q, 'b, 'x) io" where
  "quadsToTurtle w quads = call (Write quads) (writer w quads)"

subsection \<open>main\<close>

text \<open>The constants of \<^verbatim>\<open>main\<close> once lines 66 to 75 have passed.\<close>

record config =
  URL :: jsstring
  QUERY :: jsstring
  STORE :: jsstring
  METHOD :: jsstring

text \<open>
  Lines 66 to 75: the three required variables in the order URL, Query, STORE, then
  \<^verbatim>\<open>(process.env.METHOD || "POST").toUpperCase()\<close>, where an unset and an empty
  variable are both falsy (\<open>methodOrDefault\<close>).
\<close>

definition methodOrDefault :: "jsstring option \<Rightarrow> jsstring" where
  "methodOrDefault v = (case v of None \<Rightarrow> js ''POST'' | Some m \<Rightarrow> if m = [] then js ''POST'' else m)"

definition main_config :: "('q, 'b, 'x) world \<Rightarrow> 'x failure + config" where
  "main_config w =
     (case mustEnv (env w) (js ''URL'') of
        Inl e \<Rightarrow> Inl e
      | Inr u \<Rightarrow>
         (case mustEnv (env w) (js ''Query'') of
            Inl e \<Rightarrow> Inl e
          | Inr q \<Rightarrow>
             (case mustEnv (env w) (js ''STORE'') of
                Inl e \<Rightarrow> Inl e
              | Inr s \<Rightarrow>
                 (let m = toUpperCase (unicodeUpper w) (methodOrDefault (env w (js ''METHOD'')))
                  in if m \<notin> set [js ''PUT'', js ''POST'']
                     then Inl (Error (js ''METHOD must be PUT or POST (got: '' @ m @ js '')''))
                     else Inr \<lparr>URL = u, QUERY = q, STORE = s, METHOD = m\<rparr>))))"

definition storeRequest :: "config \<Rightarrow> jsstring \<Rightarrow> request" where
  "storeRequest c ttl =
     \<lparr>url = STORE c, reqMethod = Some (METHOD c),
      headers = [(js ''content-type'', js ''text/turtle'')],
      body = Some ttl\<rparr>"

text \<open>\<^verbatim>\<open>writeRes.text().catch(() => "")\<close>.\<close>

definition textOrEmpty :: "('b, 'x) response \<Rightarrow> (jsstring, 'q, 'b, 'x) io" where
  "textOrEmpty res = (case bodyText res of Inl e \<Rightarrow> (Inr [], [Text]) | Inr t \<Rightarrow> (Inr t, [Text]))"

text \<open>Lines 77 to 108.\<close>

definition main_stages :: "('q, 'b, 'x) world \<Rightarrow> config \<Rightarrow> (unit, 'q, 'b, 'x) io" where
  "main_stages w c =
     andThen (console_error (js ''[1/3] Fetching RDF from: '' @ URL c)) (\<lambda>_.
     andThen (fetchRdfToStore w (URL c)) (\<lambda>sourceStore.
     andThen (console_error (js ''[1/3] Loaded quads: '' @ decimal (store_size sourceStore))) (\<lambda>_.
     andThen (console_error (js ''[2/3] Evaluating SPARQL query...'')) (\<lambda>_.
     andThen (call (QueryQuads (QUERY c) sourceStore) (queryQuads w (QUERY c) sourceStore))
       (\<lambda>resultQuadStream.
     andThen (settle (streamToArray resultQuadStream)) (\<lambda>resultQuads.
     andThen (console_error (js ''[2/3] Result quads: '' @ decimal (length resultQuads))) (\<lambda>_.
     andThen (quadsToTurtle w resultQuads) (\<lambda>ttl.
     andThen (console_error (js ''[3/3] Writing results to store: '' @ STORE c @
                              js '' (METHOD='' @ METHOD c @ js '')'')) (\<lambda>_.
     andThen (call (Fetch (storeRequest c ttl)) (fetch w (storeRequest c ttl))) (\<lambda>writeRes.
       if \<not> ok writeRes then
         andThen (textOrEmpty writeRes) (\<lambda>body.
         throw (Error (js ''Failed to write to STORE: '' @ decimal (status writeRes) @ js '' '' @
                       statusText writeRes @ [0x0A] @ body)))
       else console_error (js ''[3/3] Done.'')))))))))))"

definition main :: "('q, 'b, 'x) world \<Rightarrow> (unit, 'q, 'b, 'x) io" where
  "main w = (case main_config w of Inl e \<Rightarrow> throw e | Inr c \<Rightarrow> main_stages w c)"

section \<open>Reading a run\<close>

text \<open>The \<^verbatim>\<open>fetch\<close> calls of a trace and its parser calls, in order.\<close>

fun requests :: "('q, 'b) event list \<Rightarrow> request list" where
  "requests [] = []"
| "requests (Fetch r # t) = r # requests t"
| "requests (_ # t) = requests t"

fun parserCalls :: "('q, 'b) event list \<Rightarrow> ('b \<times> jsstring \<times> jsstring) list" where
  "parserCalls [] = []"
| "parserCalls (Parse b ct base # t) = (b, ct, base) # parserCalls t"
| "parserCalls (_ # t) = parserCalls t"

text \<open>An environment variable that is unset, or holds nothing but white space.\<close>

definition blank :: "jsstring option \<Rightarrow> bool" where
  "blank v = (case v of None \<Rightarrow> True | Some s \<Rightarrow> list_all isWhiteSpace s)"

section \<open>The writer's contract\<close>

text \<open>
  Modelled from the spec: the RDF-serialize collaborator behind \<^verbatim>\<open>quadsToTurtle\<close> (the
  N3 \<^verbatim>\<open>Writer\<close>, a dependency that is not under \<^verbatim>\<open>src/\<close>). The specification's
  contract for it: given any finite sequence of quads, including the empty sequence, it
  produces valid Turtle text, an empty document when the input is empty. Here it writes
  one statement per quad, in order, and never rejects; how one quad is written is the
  parameter \<open>statement\<close>.
\<close>

definition rdfSerialize :: "('q \<Rightarrow> jsstring) \<Rightarrow> 'q list \<Rightarrow> 'x + jsstring" where
  "rdfSerialize statement quads = Inr (concat (map statement quads))"

text \<open>
  Modelled from the spec: a syntactically valid Turtle document, which the specification
  names without defining it. By the grammar of Turtle a document is a sequence of
  statements, possibly none; what one valid statement is, is the parameter
  \<open>validStatement\<close>.
\<close>

inductive turtleDoc :: "(jsstring \<Rightarrow> bool) \<Rightarrow> jsstring \<Rightarrow> bool"
  for validStatement :: "jsstring \<Rightarrow> bool" where
  no_statement: "turtleDoc validStatement []"
| one_more: "validStatement s \<Longrightarrow> turtleDoc validStatement d \<Longrightarrow> turtleDoc validStatement (s @ d)"

section \<open>Example runs\<close>

text \<open>
  A world for concrete runs: quads are numbers, bodies and rejections are strings.
  \<^verbatim>\<open>fetch\<close> rejects a URL that does not start with \<^verbatim>\<open>https://\<close>, answers a
  request without method with \<open>sourceRes\<close> and any other request with \<open>storeRes\<close>; the
  parser knows Turtle only; the writer prints the numbers.
\<close>

definition world_of ::
  "(jsstring \<times> jsstring) list \<Rightarrow> (jsstring, jsstring) response \<Rightarrow> nat list \<Rightarrow>
   (jsstring, jsstring) response \<Rightarrow> (nat, jsstring, jsstring) world" where
  "world_of vars sourceRes resultQuads storeRes =
     \<lparr>env = map_of vars,
      unicodeUpper = (\<lambda>s. s),
      fetch = (\<lambda>r. if take 8 (url r) \<noteq> js ''https://'' then Inl (js ''TypeError: Invalid URL'')
                    else if reqMethod r = None then Inr sourceRes else Inr storeRes),
      parse = (\<lambda>b ct base. if ct = js ''text/turtle'' then Inr (Ends [1, 2, 1])
                             else Inl (js ''no parser'')),
      queryQuads = (\<lambda>q st. Inr (Ends resultQuads)),
      writer = (\<lambda>qs. Inr (join (js '' '') (map decimal qs)))\<rparr>"

definition res_of ::
  "nat \<Rightarrow> jsstring \<Rightarrow> jsstring option \<Rightarrow> 'x + jsstring \<Rightarrow> (jsstring, 'x) response" where
  "res_of st reason ct txt =
     \<lparr>status = st, statusText = reason,
      header = (\<lambda>n. if n = js ''content-type'' then ct else None),
      stream = Some (js ''<a> <b> <c> .''),
      bodyText = txt\<rparr>"

definition vars0 :: "(jsstring \<times> jsstring) list" where
  "vars0 = [(js ''URL'', js ''https://example.org/data.ttl''),
            (js ''Query'', js ''CONSTRUCT {?s ?p ?o} WHERE {?s ?p ?o}''),
            (js ''STORE'', js ''https://example.org/store'')]"

definition sourceOK :: "(jsstring, jsstring) response" where
  "sourceOK =
     res_of 200 (js ''OK'') (Some (js ''text/turtle; charset=utf-8'')) (Inr (js ''<a> <b> <c> .''))"

definition storeOK :: "(jsstring, jsstring) response" where
  "storeOK = res_of 204 (js ''No Content'') None (Inr [])"

definition world_blank_store :: "(nat, jsstring, jsstring) world" where
  "world_blank_store =
     world_of [(js ''URL'', js ''https://example.org/data.ttl''),
               (js ''Query'', js ''CONSTRUCT {?s ?p ?o} WHERE {?s ?p ?o}''),
               (js ''STORE'', [0x20, 0x9, 0xA0])] sourceOK [1] storeOK"

text \<open>The configuration of the example environment, up to the write method.\<close>

definition config0 :: "jsstring \<Rightarrow> config" where
  "config0 m = \<lparr>URL = js ''https://example.org/data.ttl'',
                QUERY = js ''CONSTRUCT {?s ?p ?o} WHERE {?s ?p ?o}'',
                STORE = js ''https://example.org/store'',
                METHOD = m\<rparr>"

text \<open>The example environments: one per run looked at below.\<close>

definition world_put :: "(nat, jsstring, jsstring) world" where
  "world_put = world_of ((js ''METHOD'', js ''put'') # vars0) sourceOK [1, 2] storeOK"

definition notFound :: "(jsstring, jsstring) response" where
  "notFound = res_of 404 (js ''Not Found'') None (Inr (js ''no such graph''))"

definition world_404 :: "(nat, jsstring, jsstring) world" where
  "world_404 = world_of vars0 notFound [1, 2] storeOK"

definition world_empty_method :: "(nat, jsstring, jsstring) world" where
  "world_empty_method = world_of ((js ''METHOD'', []) # vars0) sourceOK [1, 2] storeOK"

definition world_delete :: "(nat, jsstring, jsstring) world" where
  "world_delete = world_of ((js ''METHOD'', js ''delete'') # vars0) sourceOK [1, 2] storeOK"

definition world_default :: "(nat, jsstring, jsstring) world" where
  "world_default = world_of vars0 sourceOK [1, 2] storeOK"

definition world_relative :: "(nat, jsstring, jsstring) world" where
  "world_relative =
     world_of [(js ''URL'', js ''data.ttl''),
               (js ''Query'', js ''CONSTRUCT {?s ?p ?o} WHERE {?s ?p ?o}''),
               (js ''STORE'', js ''https://example.org/store'')] sourceOK [1, 2] storeOK"

definition statement0 :: "nat \<Rightarrow> jsstring" where
  "statement0 n = js ''<urn:quad:'' @ decimal n @ js ''> <urn:p> <urn:o> .''"

definition world_empty_result :: "(nat, jsstring, jsstring) world" where
  "world_empty_result = (world_of vars0 sourceOK [] storeOK)\<lparr>writer := rdfSerialize statement0\<rparr>"

definition world_no_url :: "(nat, jsstring, jsstring) world" where
  "world_no_url =
     world_of [(js ''Query'', js ''CONSTRUCT {?s ?p ?o} WHERE {?s ?p ?o}''),
               (js ''STORE'', js ''https://example.org/store'')] sourceOK [1, 2] storeOK"

definition storeError :: "(jsstring, jsstring) response" where
  "storeError = res_of 500 (js ''Internal Server Error'') None (Inr (js ''disk full''))"

definition world_store_error :: "(nat, jsstring, jsstring) world" where
  "world_store_error = world_of vars0 sourceOK [1, 2] storeError"

definition storeUnreadable :: "(jsstring, jsstring) response" where
  "storeUnreadable = res_of 502 (js ''Bad Gateway'') None (Inl (js ''terminated''))"

definition world_store_unreadable :: "(nat, jsstring, jsstring) world" where
  "world_store_unreadable = world_of vars0 sourceOK [1, 2] storeUnreadable"

definition sourceJsonLd :: "(jsstring, jsstring) response" where
  "sourceJsonLd =
     res_of 200 (js ''OK'') (Some (js ''application/ld+json ;charset=utf-8'')) (Inr (js ''{}''))"

definition world_jsonld :: "(nat, jsstring, jsstring) world" where
  "world_jsonld = world_of vars0 sourceJsonLd [1, 2] storeOK"

text \<open>The equations that evaluate a concrete run.\<close>

lemmas evals = main_def main_config_def main_stages_def mustEnv_def world_of_def res_of_def
  vars0_def sourceOK_def storeOK_def config0_def js_def trim_def isWhiteSpace_def toUpperCase_def
  upperAscii_def methodOrDefault_def fetchRdfToStore_def sourceRequest_def storeRequest_def
  quadsToTurtle_def andThen_def call_def console_error_def throw_def pure_def settle_def
  fromWeb_def contentTypeOf_def ok_def textOrEmpty_def decimal.simps blank_def httpMethod_def

section \<open>Basic facts\<close>

lemma requests_append: "requests (a @ b) = requests a @ requests b"
  by (induction a rule: requests.induct) simp_all

lemma parserCalls_append: "parserCalls (a @ b) = parserCalls a @ parserCalls b"
  by (induction a rule: parserCalls.induct) simp_all

lemma trim_empty_iff: "trim s = [] \<longleftrightarrow> list_all isWhiteSpace s"
proof
  assume "trim s = []"
  then have "\<forall>c \<in> set (dropWhile isWhiteSpace s). isWhiteSpace c"
    by (simp add: trim_def)
  then have "dropWhile isWhiteSpace s = []"
    by (metis hd_dropWhile hd_in_set)
  then show "list_all isWhiteSpace s"
    by (simp add: list_all_iff)
next
  assume "list_all isWhiteSpace s"
  then show "trim s = []"
    by (auto simp: trim_def list_all_iff dest: set_dropWhileD)
qed

lemma mustEnv_blank:
  "blank (e n) \<Longrightarrow> mustEnv e n = Inl (Error (js ''Missing env var: '' @ n))"
  by (auto simp: mustEnv_def blank_def trim_empty_iff split: option.splits)

lemma mustEnv_present:
  "\<not> blank (e n) \<Longrightarrow> \<exists>v. e n = Some v \<and> mustEnv e n = Inr v"
  by (auto simp: mustEnv_def blank_def trim_empty_iff split: option.splits)

lemma mustEnv_Inr: "mustEnv e n = Inr v \<Longrightarrow> e n = Some v \<and> \<not> blank (e n)"
  by (auto simp: mustEnv_def blank_def trim_empty_iff split: option.splits if_splits)

lemma andThen_Inl [simp]: "andThen (Inl e, t) f = (Inl e, t)"
  by (simp add: andThen_def)

lemma andThen_Inr [simp]: "andThen (Inr a, t) f = (fst (f a), t @ snd (f a))"
  by (simp add: andThen_def split: prod.splits)

subsection \<open>Strings\<close>

lemma split_js_first: "\<exists>ps. split_js sep s = takeWhile (\<lambda>x. x \<noteq> sep) s # ps"
  by (induction s) auto

lemma trim_decomp:
  "\<exists>l r. s = l @ trim s @ r \<and> list_all isWhiteSpace l \<and> list_all isWhiteSpace r"
proof -
  define d where "d = dropWhile isWhiteSpace s"
  have 1: "s = takeWhile isWhiteSpace s @ d"
    by (simp add: d_def)
  have "rev (takeWhile isWhiteSpace (rev d) @ dropWhile isWhiteSpace (rev d)) = rev (rev d)"
    by (simp only: takeWhile_dropWhile_id)
  then have "rev (dropWhile isWhiteSpace (rev d)) @ rev (takeWhile isWhiteSpace (rev d)) = d"
    by (simp only: rev_append rev_rev_ident)
  then have 2: "d = trim s @ rev (takeWhile isWhiteSpace (rev d))"
    by (simp only: trim_def d_def)
  have 3: "list_all isWhiteSpace (takeWhile isWhiteSpace s)"
    "list_all isWhiteSpace (rev (takeWhile isWhiteSpace (rev d)))"
    by (auto simp: list_all_iff dest: set_takeWhileD)
  from 1 2 have "s = takeWhile isWhiteSpace s @ trim s @ rev (takeWhile isWhiteSpace (rev d))"
    by simp
  with 3 show ?thesis by blast
qed

lemma trim_ends:
  assumes "trim s \<noteq> []"
  shows "\<not> isWhiteSpace (hd (trim s)) \<and> \<not> isWhiteSpace (last (trim s))"
proof -
  define d where "d = dropWhile isWhiteSpace s"
  have t: "trim s = rev (dropWhile isWhiteSpace (rev d))"
    by (simp add: trim_def d_def)
  with assms have ne: "dropWhile isWhiteSpace (rev d) \<noteq> []" by simp
  then have l: "\<not> isWhiteSpace (last (trim s))"
    by (simp add: t last_rev hd_dropWhile)
  have "rev (takeWhile isWhiteSpace (rev d) @ dropWhile isWhiteSpace (rev d)) = rev (rev d)"
    by (simp only: takeWhile_dropWhile_id)
  then have "rev (dropWhile isWhiteSpace (rev d)) @ rev (takeWhile isWhiteSpace (rev d)) = d"
    by (simp only: rev_append rev_rev_ident)
  then have 2: "d = trim s @ rev (takeWhile isWhiteSpace (rev d))"
    by (simp only: t)
  with assms have "hd d = hd (trim s)" "d \<noteq> []"
    by (metis hd_append2, metis append_is_Nil_conv)
  then have "\<not> isWhiteSpace (hd (trim s))"
    using hd_dropWhile [of isWhiteSpace s] by (simp add: d_def)
  with l show ?thesis by simp
qed

lemma toUpperCase_POST: "toUpperCase U (js ''POST'') = js ''POST''"
  by (simp add: toUpperCase_def upperAscii_def js_def)

subsection \<open>Configuration\<close>

lemma main_config_blank:
  assumes "blank (env w (js ''URL'')) \<or> blank (env w (js ''Query'')) \<or> blank (env w (js ''STORE''))"
  shows "\<exists>name \<in> set [js ''URL'', js ''Query'', js ''STORE''].
           blank (env w name) \<and> main_config w = Inl (Error (js ''Missing env var: '' @ name))"
proof (cases "blank (env w (js ''URL''))")
  case True
  then have "main_config w = Inl (Error (js ''Missing env var: '' @ js ''URL''))"
    by (simp add: main_config_def mustEnv_blank)
  with True show ?thesis by simp
next
  case nu: False
  then obtain u where u: "mustEnv (env w) (js ''URL'') = (Inr u :: 'c failure + jsstring)"
    using mustEnv_present by blast
  show ?thesis
  proof (cases "blank (env w (js ''Query''))")
    case True
    then have "main_config w = Inl (Error (js ''Missing env var: '' @ js ''Query''))"
      using u by (simp add: main_config_def mustEnv_blank)
    with True show ?thesis by simp
  next
    case nq: False
    then obtain q where q: "mustEnv (env w) (js ''Query'') = (Inr q :: 'c failure + jsstring)"
      using mustEnv_present by blast
    from nu nq assms have s: "blank (env w (js ''STORE''))" by simp
    then have "main_config w = Inl (Error (js ''Missing env var: '' @ js ''STORE''))"
      using u q by (simp add: main_config_def mustEnv_blank)
    with s show ?thesis by simp
  qed
qed

lemma main_config_Inr:
  assumes "main_config w = Inr c"
  shows "env w (js ''URL'') = Some (URL c) \<and> env w (js ''Query'') = Some (QUERY c) \<and>
         env w (js ''STORE'') = Some (STORE c) \<and>
         \<not> blank (env w (js ''URL'')) \<and> \<not> blank (env w (js ''Query'')) \<and>
         \<not> blank (env w (js ''STORE'')) \<and>
         METHOD c = toUpperCase (unicodeUpper w) (methodOrDefault (env w (js ''METHOD''))) \<and>
         (METHOD c = js ''PUT'' \<or> METHOD c = js ''POST'')"
  using assms
  by (auto simp: main_config_def Let_def dest!: mustEnv_Inr split: sum.splits if_splits)

lemma main_config_present:
  assumes "\<not> blank (env w (js ''URL''))" "\<not> blank (env w (js ''Query''))"
    "\<not> blank (env w (js ''STORE''))"
  shows "\<exists>u q s. env w (js ''URL'') = Some u \<and> env w (js ''Query'') = Some q \<and>
           env w (js ''STORE'') = Some s \<and>
           main_config w =
             (let m = toUpperCase (unicodeUpper w) (methodOrDefault (env w (js ''METHOD'')))
              in if m = js ''PUT'' \<or> m = js ''POST''
                 then Inr \<lparr>URL = u, QUERY = q, STORE = s, METHOD = m\<rparr>
                 else Inl (Error (js ''METHOD must be PUT or POST (got: '' @ m @ js '')'')))"
proof -
  from assms(1) obtain u where u: "env w (js ''URL'') = Some u"
      "mustEnv (env w) (js ''URL'') = (Inr u :: 'c failure + jsstring)"
    using mustEnv_present by blast
  from assms(2) obtain q where q: "env w (js ''Query'') = Some q"
      "mustEnv (env w) (js ''Query'') = (Inr q :: 'c failure + jsstring)"
    using mustEnv_present by blast
  from assms(3) obtain s where s: "env w (js ''STORE'') = Some s"
      "mustEnv (env w) (js ''STORE'') = (Inr s :: 'c failure + jsstring)"
    using mustEnv_present by blast
  show ?thesis using u q s by (simp add: main_config_def Let_def)
qed

lemma main_config_Inl: "main_config w = Inl e \<Longrightarrow> main w = (Inl e, [])"
  by (simp add: main_def throw_def)

lemma main_of_config: "main_config w = Inr c \<Longrightarrow> main w = main_stages w c"
  by (simp add: main_def)

subsection \<open>Stages\<close>

lemma requests_fetchRdfToStore: "requests (snd (fetchRdfToStore w u)) = [sourceRequest u]"
  by (simp add: fetchRdfToStore_def call_def throw_def pure_def settle_def fromWeb_def Let_def
      split: sum.splits option.splits)

lemma fetchRdfToStore_first: "\<exists>t. snd (fetchRdfToStore w u) = Fetch (sourceRequest u) # t"
  by (simp add: fetchRdfToStore_def call_def split: sum.splits)

lemma parserCalls_fetchRdfToStore:
  assumes "fetch w (sourceRequest u) = Inr res" "ok res" "stream res = Some b"
  shows "parserCalls (snd (fetchRdfToStore w u)) =
           [(b, contentTypeOf (header res (js ''content-type'')), u)]"
  using assms
  by (simp add: fetchRdfToStore_def call_def settle_def fromWeb_def pure_def Let_def
      split: sum.splits)

lemma contentTypeOf_spec:
  "\<exists>l t r. contentTypeOf h = (if t = [] then js ''text/turtle'' else t) \<and>
     (case h of None \<Rightarrow> l @ t @ r = [] | Some v \<Rightarrow> l @ t @ r = takeWhile (\<lambda>x. x \<noteq> 0x3B) v) \<and>
     list_all isWhiteSpace l \<and> list_all isWhiteSpace r \<and>
     (t = [] \<or> \<not> isWhiteSpace (hd t) \<and> \<not> isWhiteSpace (last t))"
proof (cases h)
  case None
  then have "contentTypeOf h = (if ([] :: jsstring) = [] then js ''text/turtle'' else [])"
    by (simp add: contentTypeOf_def)
  with None show ?thesis
    by - (rule exI [of _ "[]"], rule exI [of _ "[]"], rule exI [of _ "[]"], simp)
next
  case (Some v)
  define p where "p = takeWhile (\<lambda>x. x \<noteq> 0x3B) v"
  obtain ps where "split_js 0x3B v = p # ps"
    using split_js_first [of "0x3B" v] by (auto simp: p_def)
  with Some have c: "contentTypeOf h = (if trim p = [] then js ''text/turtle'' else trim p)"
    by (simp add: contentTypeOf_def)
  obtain l r where d: "p = l @ trim p @ r" "list_all isWhiteSpace l" "list_all isWhiteSpace r"
    using trim_decomp [of p] by blast
  have e: "trim p = [] \<or> \<not> isWhiteSpace (hd (trim p)) \<and> \<not> isWhiteSpace (last (trim p))"
    using trim_ends [of p] by blast
  have pe: "l @ trim p @ r = takeWhile (\<lambda>x. x \<noteq> 0x3B) v"
    using d(1) by (simp only: p_def [symmetric])
  from c pe d(2,3) e Some show ?thesis
    by - (rule exI [of _ l], rule exI [of _ "trim p"], rule exI [of _ r], simp)
qed

lemma main_stages_prefix:
  "\<exists>t. snd (main_stages w c) =
        Stderr (js ''[1/3] Fetching RDF from: '' @ URL c) # snd (fetchRdfToStore w (URL c)) @ t"
proof (cases "fetchRdfToStore w (URL c)")
  case (Pair r t1)
  then show ?thesis
    by (cases r) (simp_all add: main_stages_def console_error_def)
qed

lemma parserCalls_main_stages:
  "parserCalls (snd (main_stages w c)) = parserCalls (snd (fetchRdfToStore w (URL c)))"
proof (cases "fetchRdfToStore w (URL c)")
  case (Pair r t1)
  show ?thesis
  proof (cases r)
    case (Inl e)
    with Pair show ?thesis
      by (simp add: main_stages_def console_error_def)
  next
    case (Inr st)
    with Pair show ?thesis
      by (simp add: main_stages_def console_error_def call_def settle_def quadsToTurtle_def
          textOrEmpty_def throw_def parserCalls_append split: sum.splits)
  qed
qed

lemma main_stages_publish:
  assumes src: "fetchRdfToStore w (URL c) = (Inr sourceStore, t1)"
    and qry: "queryQuads w (QUERY c) sourceStore = Inr resultQuadStream"
    and arr: "streamToArray resultQuadStream = Inr resultQuads"
    and ttl: "writer w resultQuads = Inr ttl"
  shows "main_stages w c =
    ((case fetch w (storeRequest c ttl) of
        Inl x \<Rightarrow> Inl (Rejected x)
      | Inr writeRes \<Rightarrow>
          if ok writeRes then Inr ()
          else Inl (Error (js ''Failed to write to STORE: '' @ decimal (status writeRes) @ js '' '' @
                 statusText writeRes @ [0x0A] @
                 (case bodyText writeRes of Inl e \<Rightarrow> [] | Inr b \<Rightarrow> b)))),
     Stderr (js ''[1/3] Fetching RDF from: '' @ URL c) # t1 @
     [Stderr (js ''[1/3] Loaded quads: '' @ decimal (store_size sourceStore)),
      Stderr (js ''[2/3] Evaluating SPARQL query...''),
      QueryQuads (QUERY c) sourceStore,
      Stderr (js ''[2/3] Result quads: '' @ decimal (length resultQuads)),
      Write resultQuads,
      Stderr (js ''[3/3] Writing results to store: '' @ STORE c @ js '' (METHOD='' @ METHOD c @ js '')''),
      Fetch (storeRequest c ttl)] @
     (case fetch w (storeRequest c ttl) of
        Inl x \<Rightarrow> []
      | Inr writeRes \<Rightarrow> if ok writeRes then [Stderr (js ''[3/3] Done.'')] else [Text]))"
  using assms
  by (simp add: main_stages_def console_error_def call_def settle_def quadsToTurtle_def
      textOrEmpty_def throw_def split: sum.splits)

lemma source_run:
  "fetchRdfToStore (world_of vars sourceOK rq sr) (js ''https://example.org/data.ttl'') =
     (Inr (Store [1, 2, 1]),
      [Fetch (sourceRequest (js ''https://example.org/data.ttl'')),
       Parse (js ''<a> <b> <c> .'') (js ''text/turtle'') (js ''https://example.org/data.ttl'')])"
  by (simp add: evals)

subsection \<open>The writer\<close>

lemma rdfSerialize_contract:
  assumes "\<And>q. validStatement (statement q)"
  shows "\<exists>ttl. rdfSerialize statement quads = Inr ttl \<and> turtleDoc validStatement ttl"
proof -
  have "turtleDoc validStatement (concat (map statement quads))"
  proof (induction quads)
    case Nil
    show ?case by (simp add: turtleDoc.no_statement)
  next
    case (Cons q quads)
    from assms have "validStatement (statement q)" .
    from turtleDoc.one_more [OF this Cons.IH] show ?case by simp
  qed
  then show ?thesis by (simp add: rdfSerialize_def)
qed

section \<open>Configuration\<close>

text \<open>
  C4. When URL, Query or STORE is unset or holds only white space, \<^verbatim>\<open>main\<close> throws
  \<^verbatim>\<open>Missing env var: <name>\<close> for such a variable, and the run has no effect at all: no
  line is printed, nothing is fetched, parsed or queried.
\<close>

theorem missing_required_variable:
  assumes "blank (env w (js ''URL'')) \<or> blank (env w (js ''Query'')) \<or> blank (env w (js ''STORE''))"
  shows "\<exists>name \<in> set [js ''URL'', js ''Query'', js ''STORE''].
           blank (env w name) \<and>
           main_config w = Inl (Error (js ''Missing env var: '' @ name)) \<and>
           main w = (Inl (Error (js ''Missing env var: '' @ name)), [])"
proof -
  from main_config_blank [OF assms] obtain name where
    n: "name \<in> set [js ''URL'', js ''Query'', js ''STORE'']" "blank (env w name)"
      "main_config w = Inl (Error (js ''Missing env var: '' @ name))"
    by blast
  from n(3) have "main w = (Inl (Error (js ''Missing env var: '' @ name)), [])"
    by (rule main_config_Inl)
  with n show ?thesis by blast
qed

theorem missing_required_variable_witness:
  "blank (env world_blank_store (js ''STORE'')) \<and>
   (\<exists>name \<in> set [js ''URL'', js ''Query'', js ''STORE''].
      blank (env world_blank_store name) \<and>
      main_config world_blank_store = Inl (Error (js ''Missing env var: '' @ name)) \<and>
      main world_blank_store = (Inl (Error (js ''Missing env var: '' @ name)), []))"
proof -
  have h: "blank (env world_blank_store (js ''STORE''))"
    by (simp add: evals world_blank_store_def)
  from missing_required_variable [of world_blank_store] h show ?thesis by blast
qed

text \<open>
  C3, as the code has it. When METHOD holds a non-empty value whose upper-case form is
  neither PUT nor POST, \<^verbatim>\<open>main\<close> throws before any effect; with the three required
  variables present the message is \<^verbatim>\<open>METHOD must be PUT or POST (got: <upper-case value>)\<close>.
  When METHOD is unset or empty and the required variables are present, the
  configuration is accepted with the write method POST. When the upper-case form of
  METHOD is PUT or POST and the required variables are present, the configuration is
  accepted with that upper-case form as write method.
\<close>

theorem method_validation:
  "(\<forall>v. env w (js ''METHOD'') = Some v \<and> v \<noteq> [] \<and>
        toUpperCase (unicodeUpper w) v \<notin> {js ''PUT'', js ''POST''} \<longrightarrow>
        (\<exists>msg. main_config w = Inl (Error msg) \<and> main w = (Inl (Error msg), []) \<and>
           (\<not> blank (env w (js ''URL'')) \<and> \<not> blank (env w (js ''Query'')) \<and>
            \<not> blank (env w (js ''STORE'')) \<longrightarrow>
            msg = js ''METHOD must be PUT or POST (got: '' @ toUpperCase (unicodeUpper w) v @ js '')''))) \<and>
   ((env w (js ''METHOD'') = None \<or> env w (js ''METHOD'') = Some []) \<and>
    \<not> blank (env w (js ''URL'')) \<and> \<not> blank (env w (js ''Query'')) \<and>
    \<not> blank (env w (js ''STORE'')) \<longrightarrow>
    (\<exists>c. main_config w = Inr c \<and> METHOD c = js ''POST'')) \<and>
   (\<forall>v. env w (js ''METHOD'') = Some v \<and>
        toUpperCase (unicodeUpper w) v \<in> {js ''PUT'', js ''POST''} \<and>
        \<not> blank (env w (js ''URL'')) \<and> \<not> blank (env w (js ''Query'')) \<and>
        \<not> blank (env w (js ''STORE'')) \<longrightarrow>
        (\<exists>c. main_config w = Inr c \<and> METHOD c = toUpperCase (unicodeUpper w) v))"
proof (intro conjI allI impI)
  fix v
  assume a: "env w (js ''METHOD'') = Some v \<and> v \<noteq> [] \<and>
    toUpperCase (unicodeUpper w) v \<notin> {js ''PUT'', js ''POST''}"
  then have md: "methodOrDefault (env w (js ''METHOD'')) = v"
    by (simp add: methodOrDefault_def)
  show "\<exists>msg. main_config w = Inl (Error msg) \<and> main w = (Inl (Error msg), []) \<and>
           (\<not> blank (env w (js ''URL'')) \<and> \<not> blank (env w (js ''Query'')) \<and>
            \<not> blank (env w (js ''STORE'')) \<longrightarrow>
            msg = js ''METHOD must be PUT or POST (got: '' @ toUpperCase (unicodeUpper w) v @ js '')'')"
  proof (cases "blank (env w (js ''URL'')) \<or> blank (env w (js ''Query'')) \<or> blank (env w (js ''STORE''))")
    case True
    from main_config_blank [OF True] obtain name where
      "main_config w = Inl (Error (js ''Missing env var: '' @ name))" by blast
    with True show ?thesis using main_config_Inl by blast
  next
    case False
    then have p: "\<not> blank (env w (js ''URL''))" "\<not> blank (env w (js ''Query''))"
      "\<not> blank (env w (js ''STORE''))" by simp_all
    from main_config_present [OF p] a md
    have "main_config w =
        Inl (Error (js ''METHOD must be PUT or POST (got: '' @ toUpperCase (unicodeUpper w) v @ js '')''))"
      by (auto simp: Let_def)
    then show ?thesis using main_config_Inl by blast
  qed
next
  assume a: "(env w (js ''METHOD'') = None \<or> env w (js ''METHOD'') = Some []) \<and>
    \<not> blank (env w (js ''URL'')) \<and> \<not> blank (env w (js ''Query'')) \<and>
    \<not> blank (env w (js ''STORE''))"
  then have md: "methodOrDefault (env w (js ''METHOD'')) = js ''POST''"
    by (auto simp: methodOrDefault_def)
  from a have p: "\<not> blank (env w (js ''URL''))" "\<not> blank (env w (js ''Query''))"
      "\<not> blank (env w (js ''STORE''))" by simp_all
  from main_config_present [OF p] md
  show "\<exists>c. main_config w = Inr c \<and> METHOD c = js ''POST''"
    by (auto simp: Let_def toUpperCase_POST)
next
  fix v
  assume a: "env w (js ''METHOD'') = Some v \<and>
    toUpperCase (unicodeUpper w) v \<in> {js ''PUT'', js ''POST''} \<and>
    \<not> blank (env w (js ''URL'')) \<and> \<not> blank (env w (js ''Query'')) \<and>
    \<not> blank (env w (js ''STORE''))"
  then have "v \<noteq> []"
    by (auto simp: toUpperCase_def js_def)
  with a have md: "methodOrDefault (env w (js ''METHOD'')) = v"
    by (simp add: methodOrDefault_def)
  from a have p: "\<not> blank (env w (js ''URL''))" "\<not> blank (env w (js ''Query''))"
      "\<not> blank (env w (js ''STORE''))" by simp_all
  from main_config_present [OF p] md a
  show "\<exists>c. main_config w = Inr c \<and> METHOD c = toUpperCase (unicodeUpper w) v"
    by (auto simp: Let_def)
qed

theorem method_validation_witness:
  "env world_delete (js ''METHOD'') = Some (js ''delete'') \<and>
   toUpperCase (unicodeUpper world_delete) (js ''delete'') = js ''DELETE'' \<and>
   main world_delete = (Inl (Error (js ''METHOD must be PUT or POST (got: DELETE)'')), []) \<and>
   env world_default (js ''METHOD'') = None \<and>
   (\<exists>c. main_config world_default = Inr c \<and> METHOD c = js ''POST'')"
proof -
  have m: "env world_delete (js ''METHOD'') = Some (js ''delete'')"
    and u: "toUpperCase (unicodeUpper world_delete) (js ''delete'') = js ''DELETE''"
    and nb: "\<not> blank (env world_delete (js ''URL''))" "\<not> blank (env world_delete (js ''Query''))"
      "\<not> blank (env world_delete (js ''STORE''))"
    by (simp_all add: evals world_delete_def world_default_def)
  have ne: "js ''delete'' \<noteq> []" "js ''DELETE'' \<notin> {js ''PUT'', js ''POST''}"
    by (simp_all add: js_def)
  have d: "env world_default (js ''METHOD'') = None"
    and nd: "\<not> blank (env world_default (js ''URL''))" "\<not> blank (env world_default (js ''Query''))"
      "\<not> blank (env world_default (js ''STORE''))"
    by (simp_all add: evals world_delete_def world_default_def)
  from method_validation [of world_delete] m u nb ne
  have 1: "main world_delete = (Inl (Error (js ''METHOD must be PUT or POST (got: DELETE)'')), [])"
    by (auto simp: js_def)
  from method_validation [of world_default] d nd
  have 2: "\<exists>c. main_config world_default = Inr c \<and> METHOD c = js ''POST''" by blast
  from 1 2 m u d show ?thesis by simp
qed

text \<open>
  C3 as the specification states it fails when METHOD is set to the empty string: the
  variable is set, its value is neither PUT nor POST, and yet the configuration is
  accepted with POST and the whole run succeeds.
\<close>

theorem method_empty_counterexample:
  "env world_empty_method (js ''METHOD'') = Some [] \<and>
   toUpperCase (unicodeUpper world_empty_method) [] \<notin> {js ''PUT'', js ''POST''} \<and>
   main_config world_empty_method = Inr (config0 (js ''POST'')) \<and>
   fst (main world_empty_method) = Inr () \<and>
   requests (snd (main world_empty_method)) =
     [sourceRequest (js ''https://example.org/data.ttl''),
      storeRequest (config0 (js ''POST'')) (js ''1 2'')]"
  by (simp add: evals world_empty_method_def)

lemma nonblank_accepted:
  assumes "\<not> blank (env w (js ''URL''))" "\<not> blank (env w (js ''Query''))"
    "\<not> blank (env w (js ''STORE''))"
    and m: "toUpperCase (unicodeUpper w) (methodOrDefault (env w (js ''METHOD''))) \<in> {js ''PUT'', js ''POST''}"
  shows "\<exists>u q s. env w (js ''URL'') = Some u \<and> env w (js ''Query'') = Some q \<and>
           env w (js ''STORE'') = Some s \<and>
           main_config w =
             Inr \<lparr>URL = u, QUERY = q, STORE = s,
                  METHOD = toUpperCase (unicodeUpper w) (methodOrDefault (env w (js ''METHOD'')))\<rparr> \<and>
           (\<exists>t. snd (main w) =
              Stderr (js ''[1/3] Fetching RDF from: '' @ u) # Fetch (sourceRequest u) # t)"
proof -
  from main_config_present [OF assms(1-3)] m
  obtain u q s where e: "env w (js ''URL'') = Some u" "env w (js ''Query'') = Some q"
      "env w (js ''STORE'') = Some s"
    and c: "main_config w =
      Inr \<lparr>URL = u, QUERY = q, STORE = s,
           METHOD = toUpperCase (unicodeUpper w) (methodOrDefault (env w (js ''METHOD'')))\<rparr>"
    by (auto simp: Let_def)
  from main_stages_prefix fetchRdfToStore_first
  have "\<exists>t. snd (main w) = Stderr (js ''[1/3] Fetching RDF from: '' @ u) # Fetch (sourceRequest u) # t"
    unfolding main_of_config [OF c]
    by (metis append_Cons config.select_convs(1))
  with e c show ?thesis by blast
qed

text \<open>
  C9, as the code has it. Config resolution fails fast when URL, Query or STORE is unset
  or blank: \<^verbatim>\<open>main\<close> throws and the run has no effect. It does not fail for a malformed
  value: whenever the three are not blank and the write method is PUT or POST, the
  configuration is accepted with the three values unchanged, whatever their shape, and
  the run goes on: it prints the first progress line and calls \<^verbatim>\<open>fetch\<close> with the
  value of URL.
\<close>

theorem config_accepts_nonblank:
  "(blank (env w (js ''URL'')) \<or> blank (env w (js ''Query'')) \<or> blank (env w (js ''STORE'')) \<longrightarrow>
      (\<exists>msg. main_config w = Inl (Error msg) \<and> main w = (Inl (Error msg), []))) \<and>
   (\<not> blank (env w (js ''URL'')) \<and> \<not> blank (env w (js ''Query'')) \<and>
    \<not> blank (env w (js ''STORE'')) \<and>
    toUpperCase (unicodeUpper w) (methodOrDefault (env w (js ''METHOD''))) \<in> {js ''PUT'', js ''POST''} \<longrightarrow>
      (\<exists>u q s. env w (js ''URL'') = Some u \<and> env w (js ''Query'') = Some q \<and>
         env w (js ''STORE'') = Some s \<and>
         main_config w =
           Inr \<lparr>URL = u, QUERY = q, STORE = s,
                METHOD = toUpperCase (unicodeUpper w) (methodOrDefault (env w (js ''METHOD'')))\<rparr> \<and>
         (\<exists>t. snd (main w) =
            Stderr (js ''[1/3] Fetching RDF from: '' @ u) # Fetch (sourceRequest u) # t)))"
proof (intro conjI impI)
  assume b: "blank (env w (js ''URL'')) \<or> blank (env w (js ''Query'')) \<or> blank (env w (js ''STORE''))"
  from main_config_blank [OF b] obtain name where
    "main_config w = Inl (Error (js ''Missing env var: '' @ name))" by blast
  then show "\<exists>msg. main_config w = Inl (Error msg) \<and> main w = (Inl (Error msg), [])"
    using main_config_Inl by blast
next
  assume a: "\<not> blank (env w (js ''URL'')) \<and> \<not> blank (env w (js ''Query'')) \<and>
    \<not> blank (env w (js ''STORE'')) \<and>
    toUpperCase (unicodeUpper w) (methodOrDefault (env w (js ''METHOD''))) \<in> {js ''PUT'', js ''POST''}"
  then have p: "\<not> blank (env w (js ''URL''))" "\<not> blank (env w (js ''Query''))"
      "\<not> blank (env w (js ''STORE''))"
    and m: "toUpperCase (unicodeUpper w) (methodOrDefault (env w (js ''METHOD''))) \<in> {js ''PUT'', js ''POST''}"
    by simp_all
  from nonblank_accepted [OF p m]
  show "\<exists>u q s. env w (js ''URL'') = Some u \<and> env w (js ''Query'') = Some q \<and>
         env w (js ''STORE'') = Some s \<and>
         main_config w =
           Inr \<lparr>URL = u, QUERY = q, STORE = s,
                METHOD = toUpperCase (unicodeUpper w) (methodOrDefault (env w (js ''METHOD'')))\<rparr> \<and>
         (\<exists>t. snd (main w) =
            Stderr (js ''[1/3] Fetching RDF from: '' @ u) # Fetch (sourceRequest u) # t)" .
qed

theorem config_accepts_nonblank_witness:
  "blank (env world_no_url (js ''URL'')) \<and>
   (\<exists>msg. main_config world_no_url = Inl (Error msg) \<and> main world_no_url = (Inl (Error msg), [])) \<and>
   \<not> blank (env world_relative (js ''URL'')) \<and>
   toUpperCase (unicodeUpper world_relative) (methodOrDefault (env world_relative (js ''METHOD'')))
     = js ''POST'' \<and>
   (\<exists>q s. env world_relative (js ''Query'') = Some q \<and>
          env world_relative (js ''STORE'') = Some s \<and>
          main_config world_relative =
             Inr \<lparr>URL = js ''data.ttl'', QUERY = q, STORE = s, METHOD = js ''POST''\<rparr> \<and>
          (\<exists>t. snd (main world_relative) =
              Stderr (js ''[1/3] Fetching RDF from: '' @ js ''data.ttl'') #
              Fetch (sourceRequest (js ''data.ttl'')) # t))"
proof -
  have b: "blank (env world_no_url (js ''URL''))"
    by (simp add: evals world_no_url_def)
  from config_accepts_nonblank [of world_no_url] b
  have 1: "\<exists>msg. main_config world_no_url = Inl (Error msg) \<and>
      main world_no_url = (Inl (Error msg), [])"
    by blast
  have nb: "\<not> blank (env world_relative (js ''URL''))"
      "\<not> blank (env world_relative (js ''Query''))"
      "\<not> blank (env world_relative (js ''STORE''))"
    by (simp_all add: evals world_relative_def)
  have u: "env world_relative (js ''URL'') = Some (js ''data.ttl'')"
    by (simp add: evals world_relative_def)
  have m: "toUpperCase (unicodeUpper world_relative)
      (methodOrDefault (env world_relative (js ''METHOD''))) = js ''POST''"
    by (simp add: evals world_relative_def)
  then have m': "toUpperCase (unicodeUpper world_relative)
      (methodOrDefault (env world_relative (js ''METHOD''))) \<in> {js ''PUT'', js ''POST''}"
    by simp
  from config_accepts_nonblank [of world_relative] nb m'
  have 2: "\<exists>u q s. env world_relative (js ''URL'') = Some u \<and>
         env world_relative (js ''Query'') = Some q \<and>
         env world_relative (js ''STORE'') = Some s \<and>
         main_config world_relative =
           Inr \<lparr>URL = u, QUERY = q, STORE = s,
                METHOD = toUpperCase (unicodeUpper world_relative)
                  (methodOrDefault (env world_relative (js ''METHOD'')))\<rparr> \<and>
         (\<exists>t. snd (main world_relative) =
            Stderr (js ''[1/3] Fetching RDF from: '' @ u) # Fetch (sourceRequest u) # t)"
    by blast
  from 2 u m have 3: "\<exists>q s. env world_relative (js ''Query'') = Some q \<and>
          env world_relative (js ''STORE'') = Some s \<and>
          main_config world_relative =
             Inr \<lparr>URL = js ''data.ttl'', QUERY = q, STORE = s, METHOD = js ''POST''\<rparr> \<and>
          (\<exists>t. snd (main world_relative) =
              Stderr (js ''[1/3] Fetching RDF from: '' @ js ''data.ttl'') #
              Fetch (sourceRequest (js ''data.ttl'')) # t)"
    by auto
  from b 1 nb(1) m 3 show ?thesis by blast
qed

text \<open>
  C9 as the specification states it fails for the relative reference \<^verbatim>\<open>data.ttl\<close>,
  which has no colon and so no scheme: the configuration is accepted, the fetch stage
  starts, and the failure of the run is the rejection of \<^verbatim>\<open>fetch\<close>, not an error of
  the configuration.
\<close>

theorem relative_url_counterexample:
  "env world_relative (js ''URL'') = Some (js ''data.ttl'') \<and>
   0x3A \<notin> set (js ''data.ttl'') \<and>
   main_config world_relative =
     Inr \<lparr>URL = js ''data.ttl'', QUERY = js ''CONSTRUCT {?s ?p ?o} WHERE {?s ?p ?o}'',
          STORE = js ''https://example.org/store'', METHOD = js ''POST''\<rparr> \<and>
   main world_relative =
     (Inl (Rejected (js ''TypeError: Invalid URL'')),
      [Stderr (js ''[1/3] Fetching RDF from: data.ttl''), Fetch (sourceRequest (js ''data.ttl''))])"
  by (simp add: evals world_relative_def)

section \<open>Fetching the source\<close>

text \<open>
  C6. The request that \<^verbatim>\<open>fetchRdfToStore\<close> gives to \<^verbatim>\<open>fetch\<close> names no method, so
  it is a GET, and its only header is \<^verbatim>\<open>accept\<close> with exactly the eight media ranges of
  the specification, joined by a comma and a space. It is the only request of
  \<^verbatim>\<open>fetchRdfToStore\<close>, and the first request of every run that has a configuration.
\<close>

theorem source_request_accept:
  "sourceRequest u =
     \<lparr>url = u, reqMethod = None,
      headers = [(js ''accept'',
        js ''text/turtle, application/n-triples, application/ld+json, application/rdf+xml, application/trig, application/n-quads, application/octet-stream;q=0.1, */*;q=0.01'')],
      body = None\<rparr> \<and>
   httpMethod (sourceRequest u) = js ''GET'' \<and>
   requests (snd (fetchRdfToStore w u)) = [sourceRequest u] \<and>
   (case main_config w of
      Inl e \<Rightarrow> requests (snd (main w)) = []
    | Inr c \<Rightarrow> take 1 (requests (snd (main w))) = [sourceRequest (URL c)])"
proof -
  have 1: "sourceRequest u =
     \<lparr>url = u, reqMethod = None,
      headers = [(js ''accept'',
        js ''text/turtle, application/n-triples, application/ld+json, application/rdf+xml, application/trig, application/n-quads, application/octet-stream;q=0.1, */*;q=0.01'')],
      body = None\<rparr>"
    by (simp add: sourceRequest_def js_def)
  have 2: "httpMethod (sourceRequest u) = js ''GET''"
    by (simp add: httpMethod_def sourceRequest_def)
  have 3: "(case main_config w of
      Inl e \<Rightarrow> requests (snd (main w)) = []
    | Inr c \<Rightarrow> take 1 (requests (snd (main w))) = [sourceRequest (URL c)])"
  proof (cases "main_config w")
    case (Inl e)
    then show ?thesis by (simp add: main_config_Inl)
  next
    case (Inr c)
    obtain t where "snd (main_stages w c) =
        Stderr (js ''[1/3] Fetching RDF from: '' @ URL c) # snd (fetchRdfToStore w (URL c)) @ t"
      using main_stages_prefix by blast
    then have "requests (snd (main w)) = sourceRequest (URL c) # requests t"
      by (simp add: main_of_config [OF Inr] requests_append requests_fetchRdfToStore)
    with Inr show ?thesis by simp
  qed
  from 1 2 3 requests_fetchRdfToStore show ?thesis by blast
qed

text \<open>
  C2. When the response to the source request is not ok (its status lies outside
  200..299), \<^verbatim>\<open>main\<close> throws \<^verbatim>\<open>Failed to fetch RDF: <status> <statusText> (<url>)\<close>;
  the run has printed one line and called \<^verbatim>\<open>fetch\<close> once, and the parser was never
  called.
\<close>

theorem fetch_failure:
  assumes cfg: "main_config w = Inr c"
    and res: "fetch w (sourceRequest (URL c)) = Inr res"
    and nok: "\<not> ok res"
  shows "main w =
           (Inl (Error (js ''Failed to fetch RDF: '' @ decimal (status res) @ js '' '' @
                        statusText res @ js '' ('' @ URL c @ js '')'')),
            [Stderr (js ''[1/3] Fetching RDF from: '' @ URL c), Fetch (sourceRequest (URL c))]) \<and>
         parserCalls (snd (main w)) = []"
  using res nok
  by (simp add: main_of_config [OF cfg] main_stages_def fetchRdfToStore_def console_error_def
      call_def throw_def)

theorem fetch_failure_witness:
  "main_config world_404 = Inr (config0 (js ''POST'')) \<and>
   fetch world_404 (sourceRequest (js ''https://example.org/data.ttl'')) = Inr notFound \<and>
   \<not> ok notFound \<and>
   main world_404 =
     (Inl (Error (js ''Failed to fetch RDF: 404 Not Found (https://example.org/data.ttl)'')),
      [Stderr (js ''[1/3] Fetching RDF from: https://example.org/data.ttl''),
       Fetch (sourceRequest (js ''https://example.org/data.ttl''))]) \<and>
   parserCalls (snd (main world_404)) = []"
proof -
  have cfg: "main_config world_404 = Inr (config0 (js ''POST''))"
    by (simp add: evals world_404_def notFound_def)
  have res: "fetch world_404 (sourceRequest (URL (config0 (js ''POST'')))) = Inr notFound"
    by (simp add: evals world_404_def notFound_def)
  have nok: "\<not> ok notFound"
    by (simp add: evals world_404_def notFound_def)
  have "decimal (status notFound) = js ''404''" "statusText notFound = js ''Not Found''"
    by (simp_all add: evals world_404_def notFound_def)
  with fetch_failure [OF cfg res nok] cfg res nok show ?thesis
    by (simp add: config0_def js_def)
qed

text \<open>
  C5. When the source response is ok and has a body, the parser is called exactly once,
  with the source URL as base IRI and with this content type: take the
  \<^verbatim>\<open>content-type\<close> header up to its first semicolon (nothing, when the header is
  missing), remove the white space \<open>l\<close> before and \<open>r\<close> after what remains, \<open>t\<close>;
  the content type is \<open>t\<close>, or \<^verbatim>\<open>text/turtle\<close> when \<open>t\<close> is empty.
\<close>

theorem parser_content_type:
  assumes cfg: "main_config w = Inr c"
    and res: "fetch w (sourceRequest (URL c)) = Inr res"
    and k: "ok res"
    and b: "stream res = Some b"
  shows "\<exists>l t r.
     parserCalls (snd (main w)) = [(b, if t = [] then js ''text/turtle'' else t, URL c)] \<and>
     (case header res (js ''content-type'') of
        None \<Rightarrow> l @ t @ r = []
      | Some v \<Rightarrow> l @ t @ r = takeWhile (\<lambda>x. x \<noteq> 0x3B) v) \<and>
     list_all isWhiteSpace l \<and> list_all isWhiteSpace r \<and>
     (t = [] \<or> \<not> isWhiteSpace (hd t) \<and> \<not> isWhiteSpace (last t))"
proof -
  have "parserCalls (snd (main w)) = [(b, contentTypeOf (header res (js ''content-type'')), URL c)]"
    by (simp add: main_of_config [OF cfg] parserCalls_main_stages
        parserCalls_fetchRdfToStore [OF res k b])
  with contentTypeOf_spec [of "header res (js ''content-type'')"] show ?thesis
    by auto
qed

theorem parser_content_type_witness:
  "main_config world_jsonld = Inr (config0 (js ''POST'')) \<and>
   fetch world_jsonld (sourceRequest (js ''https://example.org/data.ttl'')) = Inr sourceJsonLd \<and>
   ok sourceJsonLd \<and>
   stream sourceJsonLd = Some (js ''<a> <b> <c> .'') \<and>
   header sourceJsonLd (js ''content-type'') = Some (js ''application/ld+json ;charset=utf-8'') \<and>
   parserCalls (snd (main world_jsonld)) =
     [(js ''<a> <b> <c> .'', js ''application/ld+json'', js ''https://example.org/data.ttl'')] \<and>
   (\<exists>l t r.
      parserCalls (snd (main world_jsonld)) =
        [(js ''<a> <b> <c> .'', if t = [] then js ''text/turtle'' else t,
          js ''https://example.org/data.ttl'')] \<and>
      l @ t @ r = js ''application/ld+json '' \<and>
      list_all isWhiteSpace l \<and> list_all isWhiteSpace r \<and>
      (t = [] \<or> \<not> isWhiteSpace (hd t) \<and> \<not> isWhiteSpace (last t)))"
proof -
  have cfg: "main_config world_jsonld = Inr (config0 (js ''POST''))"
    by (simp add: evals world_jsonld_def sourceJsonLd_def)
  have res: "fetch world_jsonld (sourceRequest (URL (config0 (js ''POST'')))) = Inr sourceJsonLd"
    by (simp add: evals world_jsonld_def sourceJsonLd_def)
  have k: "ok sourceJsonLd"
    by (simp add: evals world_jsonld_def sourceJsonLd_def)
  have b: "stream sourceJsonLd = Some (js ''<a> <b> <c> .'')"
    by (simp add: evals world_jsonld_def sourceJsonLd_def)
  have h: "header sourceJsonLd (js ''content-type'') = Some (js ''application/ld+json ;charset=utf-8'')"
    by (simp add: evals world_jsonld_def sourceJsonLd_def)
  have tw: "takeWhile (\<lambda>x. x \<noteq> 0x3B) (js ''application/ld+json ;charset=utf-8'') =
      js ''application/ld+json ''"
    by (simp add: js_def)
  have pc: "parserCalls (snd (main world_jsonld)) =
     [(js ''<a> <b> <c> .'', js ''application/ld+json'', js ''https://example.org/data.ttl'')]"
    by (simp add: evals world_jsonld_def sourceJsonLd_def)
  have u: "URL (config0 (js ''POST'')) = js ''https://example.org/data.ttl''"
    by (simp add: config0_def)
  from parser_content_type [OF cfg res k b] have
    "\<exists>l t r.
      parserCalls (snd (main world_jsonld)) =
        [(js ''<a> <b> <c> .'', if t = [] then js ''text/turtle'' else t,
          js ''https://example.org/data.ttl'')] \<and>
      l @ t @ r = js ''application/ld+json '' \<and>
      list_all isWhiteSpace l \<and> list_all isWhiteSpace r \<and>
      (t = [] \<or> \<not> isWhiteSpace (hd t) \<and> \<not> isWhiteSpace (last t))"
    unfolding h u option.case tw .
  with cfg res k b h pc u show ?thesis
    by simp
qed

section \<open>Publishing the result\<close>

text \<open>
  C1. In a run that reaches the write (configuration, fetch, parse, query and
  serialization have succeeded), the requests of the whole run are the source request
  and one request to the value of STORE, whose method is the configured write method
  (the upper-case form of METHOD, or POST by default; it is PUT or POST), whose only
  header is \<^verbatim>\<open>content-type: text/turtle\<close> and whose body is the text the writer made of
  the result quads.
\<close>

theorem publish_request:
  assumes cfg: "main_config w = Inr c"
    and src: "fetchRdfToStore w (URL c) = (Inr sourceStore, t1)"
    and qry: "queryQuads w (QUERY c) sourceStore = Inr resultQuadStream"
    and arr: "streamToArray resultQuadStream = Inr resultQuads"
    and ttl: "writer w resultQuads = Inr ttl"
  shows "requests (snd (main w)) =
           [sourceRequest (URL c),
            \<lparr>url = STORE c, reqMethod = Some (METHOD c),
             headers = [(js ''content-type'', js ''text/turtle'')], body = Some ttl\<rparr>] \<and>
         env w (js ''STORE'') = Some (STORE c) \<and>
         METHOD c = toUpperCase (unicodeUpper w) (methodOrDefault (env w (js ''METHOD''))) \<and>
         (METHOD c = js ''PUT'' \<or> METHOD c = js ''POST'')"
proof -
  have "requests t1 = [sourceRequest (URL c)]"
    using requests_fetchRdfToStore [of w "URL c"] src by simp
  then have "requests (snd (main w)) = [sourceRequest (URL c), storeRequest c ttl]"
    by (simp add: main_of_config [OF cfg] main_stages_publish [OF src qry arr ttl]
        requests_append split: sum.splits)
  then show ?thesis
    using main_config_Inr [OF cfg] by (auto simp: storeRequest_def)
qed

theorem publish_request_witness:
  "main_config world_put = Inr (config0 (js ''PUT'')) \<and>
   writer world_put [1, 2] = Inr (js ''1 2'') \<and>
   requests (snd (main world_put)) =
     [sourceRequest (js ''https://example.org/data.ttl''),
      \<lparr>url = js ''https://example.org/store'', reqMethod = Some (js ''PUT''),
       headers = [(js ''content-type'', js ''text/turtle'')], body = Some (js ''1 2'')\<rparr>]"
proof -
  have cfg: "main_config world_put = Inr (config0 (js ''PUT''))"
    by (simp add: evals world_put_def)
  have src: "fetchRdfToStore world_put (URL (config0 (js ''PUT''))) =
      (Inr (Store [1, 2, 1]),
       [Fetch (sourceRequest (js ''https://example.org/data.ttl'')),
        Parse (js ''<a> <b> <c> .'') (js ''text/turtle'') (js ''https://example.org/data.ttl'')])"
    by (simp add: evals world_put_def)
  have qry: "queryQuads world_put (QUERY (config0 (js ''PUT''))) (Store [1, 2, 1]) = Inr (Ends [1, 2])"
    by (simp add: evals world_put_def)
  have arr: "streamToArray (Ends [1, 2 :: nat]) = (Inr [1, 2] :: jsstring + nat list)"
    by simp
  have ttl: "writer world_put [1, 2] = Inr (js ''1 2'')"
    by (simp add: evals world_put_def)
  from publish_request [OF cfg src qry arr ttl] cfg ttl show ?thesis
    by (simp add: config0_def)
qed

text \<open>
  C7. With the writer of the specification, a run whose query yields no quad has its
  serialization succeed with the empty text, which is a valid Turtle document (one of no
  statements); the write request is issued all the same, with that text as body, and the
  outcome of the run is decided by the answer of the store alone: an ok response ends
  the run normally, and no other failure arises.
\<close>

theorem empty_result_is_published:
  assumes wr: "writer w = rdfSerialize statement"
    and cfg: "main_config w = Inr c"
    and src: "fetchRdfToStore w (URL c) = (Inr sourceStore, t1)"
    and qry: "queryQuads w (QUERY c) sourceStore = Inr resultQuadStream"
    and arr: "streamToArray resultQuadStream = Inr []"
  shows "quadsToTurtle w [] = (Inr [], [Write []]) \<and>
         turtleDoc validStatement [] \<and>
         requests (snd (main w)) = [sourceRequest (URL c), storeRequest c []] \<and>
         body (storeRequest c []) = Some [] \<and>
         fst (main w) =
           (case fetch w (storeRequest c []) of
              Inl x \<Rightarrow> Inl (Rejected x)
            | Inr writeRes \<Rightarrow>
                if ok writeRes then Inr ()
                else Inl (Error (js ''Failed to write to STORE: '' @ decimal (status writeRes) @
                       js '' '' @ statusText writeRes @ [0x0A] @
                       (case bodyText writeRes of Inl e \<Rightarrow> [] | Inr b \<Rightarrow> b))))"
proof -
  have ttl: "writer w [] = Inr []"
    by (simp add: wr rdfSerialize_def)
  have "requests t1 = [sourceRequest (URL c)]"
    using requests_fetchRdfToStore [of w "URL c"] src by simp
  then show ?thesis
    using ttl
    by (simp add: main_of_config [OF cfg] main_stages_publish [OF src qry arr ttl]
        requests_append storeRequest_def quadsToTurtle_def call_def turtleDoc.no_statement
        split: sum.splits)
qed

theorem empty_result_is_published_witness:
  "writer world_empty_result = rdfSerialize statement0 \<and>
   main_config world_empty_result = Inr (config0 (js ''POST'')) \<and>
   queryQuads world_empty_result (js ''CONSTRUCT {?s ?p ?o} WHERE {?s ?p ?o}'') (Store [1, 2, 1]) =
     Inr (Ends []) \<and>
   quadsToTurtle world_empty_result [] = (Inr [], [Write []]) \<and>
   turtleDoc (\<lambda>s. \<exists>n. s = statement0 n) [] \<and>
   requests (snd (main world_empty_result)) =
     [sourceRequest (js ''https://example.org/data.ttl''), storeRequest (config0 (js ''POST'')) []] \<and>
   fst (main world_empty_result) = Inr ()"
proof -
  have wr: "writer world_empty_result = rdfSerialize statement0"
    by (simp add: world_empty_result_def)
  have cfg: "main_config world_empty_result = Inr (config0 (js ''POST''))"
    by (simp add: evals world_empty_result_def)
  have src: "fetchRdfToStore world_empty_result (URL (config0 (js ''POST''))) =
      (Inr (Store [1, 2, 1]),
       [Fetch (sourceRequest (js ''https://example.org/data.ttl'')),
        Parse (js ''<a> <b> <c> .'') (js ''text/turtle'') (js ''https://example.org/data.ttl'')])"
    by (simp add: evals world_empty_result_def)
  have qry: "queryQuads world_empty_result (QUERY (config0 (js ''POST''))) (Store [1, 2, 1]) = Inr (Ends [])"
    by (simp add: evals world_empty_result_def)
  have arr: "streamToArray (Ends ([] :: nat list)) = (Inr [] :: jsstring + nat list)"
    by simp
  have rq: "fetch world_empty_result (storeRequest (config0 (js ''POST'')) []) = Inr storeOK"
    and k: "ok storeOK"
    by (simp_all add: evals world_empty_result_def)
  from empty_result_is_published [OF wr cfg src qry arr, of "\<lambda>s. \<exists>n. s = statement0 n"]
    wr cfg qry rq k
  show ?thesis
    by (simp add: config0_def)
qed

text \<open>
  C8. When the response to the write request is not ok and its body can be read,
  \<^verbatim>\<open>main\<close> throws \<^verbatim>\<open>Failed to write to STORE: <status> <statusText>\<close>, a line feed,
  and the body text.
\<close>

theorem publish_failure:
  assumes cfg: "main_config w = Inr c"
    and src: "fetchRdfToStore w (URL c) = (Inr sourceStore, t1)"
    and qry: "queryQuads w (QUERY c) sourceStore = Inr resultQuadStream"
    and arr: "streamToArray resultQuadStream = Inr resultQuads"
    and ttl: "writer w resultQuads = Inr ttl"
    and wr: "fetch w (storeRequest c ttl) = Inr writeRes"
    and nok: "\<not> ok writeRes"
    and rd: "bodyText writeRes = Inr b"
  shows "fst (main w) =
           Inl (Error (js ''Failed to write to STORE: '' @ decimal (status writeRes) @ js '' '' @
                       statusText writeRes @ [0x0A] @ b))"
  using wr nok rd
  by (simp add: main_of_config [OF cfg] main_stages_publish [OF src qry arr ttl])

theorem publish_failure_witness:
  "main_config world_store_error = Inr (config0 (js ''POST'')) \<and>
   fetch world_store_error (storeRequest (config0 (js ''POST'')) (js ''1 2'')) = Inr storeError \<and>
   \<not> ok storeError \<and> bodyText storeError = Inr (js ''disk full'') \<and>
   fst (main world_store_error) =
     Inl (Error (js ''Failed to write to STORE: 500 Internal Server Error'' @ [0x0A] @ js ''disk full''))"
proof -
  have cfg: "main_config world_store_error = Inr (config0 (js ''POST''))"
    by (simp add: evals world_store_error_def storeError_def)
  have src: "fetchRdfToStore world_store_error (URL (config0 (js ''POST''))) =
      (Inr (Store [1, 2, 1]),
       [Fetch (sourceRequest (js ''https://example.org/data.ttl'')),
        Parse (js ''<a> <b> <c> .'') (js ''text/turtle'') (js ''https://example.org/data.ttl'')])"
    by (simp add: world_store_error_def config0_def source_run)
  have qry: "queryQuads world_store_error (QUERY (config0 (js ''POST''))) (Store [1, 2, 1]) = Inr (Ends [1, 2])"
    by (simp add: evals world_store_error_def storeError_def)
  have arr: "streamToArray (Ends [1, 2 :: nat]) = (Inr [1, 2] :: jsstring + nat list)"
    by simp
  have ttl: "writer world_store_error [1, 2] = Inr (js ''1 2'')"
    by (simp add: evals world_store_error_def storeError_def)
  have wr: "fetch world_store_error (storeRequest (config0 (js ''POST'')) (js ''1 2'')) = Inr storeError"
    by (simp add: evals world_store_error_def storeError_def)
  have nok: "\<not> ok storeError"
    by (simp add: evals world_store_error_def storeError_def)
  have rd: "bodyText storeError = Inr (js ''disk full'')"
    by (simp add: evals world_store_error_def storeError_def)
  have "decimal (status storeError) = js ''500''"
       "statusText storeError = js ''Internal Server Error''"
    by (simp_all add: evals world_store_error_def storeError_def)
  with publish_failure [OF cfg src qry arr ttl wr nok rd] cfg wr nok rd show ?thesis
    by (simp add: js_def)
qed

text \<open>
  C10. When the response to the write request is not ok and reading its body fails,
  the failure of \<^verbatim>\<open>text()\<close> is dropped: \<^verbatim>\<open>main\<close> throws the same error with an
  empty body text, after having called \<^verbatim>\<open>text()\<close> as its last effect.
\<close>

theorem publish_failure_body_unreadable:
  assumes cfg: "main_config w = Inr c"
    and src: "fetchRdfToStore w (URL c) = (Inr sourceStore, t1)"
    and qry: "queryQuads w (QUERY c) sourceStore = Inr resultQuadStream"
    and arr: "streamToArray resultQuadStream = Inr resultQuads"
    and ttl: "writer w resultQuads = Inr ttl"
    and wr: "fetch w (storeRequest c ttl) = Inr writeRes"
    and nok: "\<not> ok writeRes"
    and rd: "bodyText writeRes = Inl e"
  shows "fst (main w) =
           Inl (Error (js ''Failed to write to STORE: '' @ decimal (status writeRes) @ js '' '' @
                       statusText writeRes @ [0x0A] @ [])) \<and>
         fst (main w) \<noteq> Inl (Rejected e) \<and>
         last (snd (main w)) = Text"
  using wr nok rd
  by (simp add: main_of_config [OF cfg] main_stages_publish [OF src qry arr ttl])

theorem publish_failure_body_unreadable_witness:
  "main_config world_store_unreadable = Inr (config0 (js ''POST'')) \<and>
   fetch world_store_unreadable (storeRequest (config0 (js ''POST'')) (js ''1 2'')) = Inr storeUnreadable \<and>
   \<not> ok storeUnreadable \<and> bodyText storeUnreadable = Inl (js ''terminated'') \<and>
   fst (main world_store_unreadable) =
     Inl (Error (js ''Failed to write to STORE: 502 Bad Gateway'' @ [0x0A])) \<and>
   last (snd (main world_store_unreadable)) = Text"
proof -
  have cfg: "main_config world_store_unreadable = Inr (config0 (js ''POST''))"
    by (simp add: evals world_store_unreadable_def storeUnreadable_def)
  have src: "fetchRdfToStore world_store_unreadable (URL (config0 (js ''POST''))) =
      (Inr (Store [1, 2, 1]),
       [Fetch (sourceRequest (js ''https://example.org/data.ttl'')),
        Parse (js ''<a> <b> <c> .'') (js ''text/turtle'') (js ''https://example.org/data.ttl'')])"
    by (simp add: world_store_unreadable_def config0_def source_run)
  have qry: "queryQuads world_store_unreadable (QUERY (config0 (js ''POST''))) (Store [1, 2, 1]) = Inr (Ends [1, 2])"
    by (simp add: evals world_store_unreadable_def storeUnreadable_def)
  have arr: "streamToArray (Ends [1, 2 :: nat]) = (Inr [1, 2] :: jsstring + nat list)"
    by simp
  have ttl: "writer world_store_unreadable [1, 2] = Inr (js ''1 2'')"
    by (simp add: evals world_store_unreadable_def storeUnreadable_def)
  have wr: "fetch world_store_unreadable (storeRequest (config0 (js ''POST'')) (js ''1 2'')) = Inr storeUnreadable"
    by (simp add: evals world_store_unreadable_def storeUnreadable_def)
  have nok: "\<not> ok storeUnreadable"
    by (simp add: evals world_store_unreadable_def storeUnreadable_def)
  have rd: "bodyText storeUnreadable = Inl (js ''terminated'')"
    by (simp add: evals world_store_unreadable_def storeUnreadable_def)
  have "decimal (status storeUnreadable) = js ''502''"
       "statusText storeUnreadable = js ''Bad Gateway''"
    by (simp_all add: evals world_store_unreadable_def storeUnreadable_def)
  with publish_failure_body_unreadable [OF cfg src qry arr ttl wr nok rd] cfg wr nok rd
  show ?thesis
    by (simp add: js_def)
qed

end
